theory Spec2Isabelle
  imports Main
begin

section \<open>The request handler of the Connect SDK (packages/browser/src/request/request.ts)\<close>

text \<open>
  The class \<^verbatim>\<open>RequestHandler\<close> is embedded with explicit state passing. Everything the
  handler does to the outside world (a call of the transport adapter, of the status
  listener, of a request's callback, of the logger) is appended to the field \<open>trace\<close> of
  the state, in the order of the calls. A JavaScript exception is a result \<open>Thrown\<close>,
  paired with the state as the statements before the exception left it.

  The transport adapter answers asynchronously (the handler runs on a single-threaded
  event loop): \<^verbatim>\<open>httpRequest\<close> only records the call, and the adapter's answers are
  separate events (\<open>handleResponse\<close>, \<open>checkVersionCallback\<close>). Listeners and callbacks
  are opaque functions of the caller: a call is recorded and returns normally.

  \<^verbatim>\<open>nextId\<close> is a JavaScript number that is only ever incremented from 0; it is a natural
  number here (the increments stay exact below 2^53 requests).
\<close>

subsection \<open>Constants (shared/constants.ts)\<close>

definition MIN_SECURE_VERSION :: string where
  "MIN_SECURE_VERSION = ''3.8.0''"

definition MAX_POLLING_ERRORS :: nat where
  "MAX_POLLING_ERRORS = 3"

definition HTTP_METHOD_GET :: string where
  "HTTP_METHOD_GET = ''GET''"

definition HTTP_METHOD_POST :: string where
  "HTTP_METHOD_POST = ''POST''"

text \<open>
  Modelled from the spec: the status enumeration \<^verbatim>\<open>STATUS\<close> of shared/sharedInternals,
  which request.ts imports and which is not among the sources. Its members are the
  statuses the spec lists, under the names that request.ts and connect.ts use, pairwise
  distinct. The constructor of the handler sets \<^verbatim>\<open>connectStatus = 0\<close>, read as the first
  member.
\<close>

datatype status =
  INITIALIZING | RETRYING | RUNNING | OUTDATED | FAILED | EXTENSION_INSTALL
  | STOPPED | WAITING | DEGRADED

subsection \<open>Data (interfaces ICallback, IRequest)\<close>

text \<open>A function value of the caller (by handle), or the default \<^verbatim>\<open>function(){}\<close>.\<close>

datatype fn = Noop | User_fn nat

record callbacks =
  success :: fn
  error :: fn

text \<open>
  The \<^verbatim>\<open>data\<close> of a request: \<^verbatim>\<open>null\<close>, a string, or the string
  \<^verbatim>\<open>JSON.stringify({min_version: .., sdk_location: ..})\<close> kept symbolic.
\<close>

datatype jsdata =
  Null_data
  | String_data string
  | Stringify_update (min_version: string) (sdk_location: string)

record request =
  id_r :: nat
  method_r :: string
  path :: string
  data :: jsdata
  callbacks :: "callbacks option"

text \<open>
  \<^verbatim>\<open>Utils.parseJson(response)\<close> (module utils, not among the sources) is an input of the
  model: the parsed object, as far as the handler reads it. That is whether the field
  \<^verbatim>\<open>error\<close> is defined (by the spec it is for a malformed answer and for an error
  payload), the field \<^verbatim>\<open>version\<close>, and the rest of the object.
\<close>

record parsed =
  has_error :: bool
  version :: string
  content :: string

datatype cb_arg = Empty_object | Parsed_response parsed

text \<open>The fourth argument of \<^verbatim>\<open>httpRequest\<close>: which method of the handler gets the answer.\<close>

datatype callback = To_handleResponse | To_checkVersionCallback | To_null

datatype effect =
  HttpRequest string string jsdata callback nat "string option"
  | Listener_call nat status
  | Callback_call fn cb_arg
  | Adapter_stop
  | Logger_debug_status status status
  | Logger_debug_stopped
  | Logger_error_parse
  | Logger_log_timeout

text \<open>The transport adapter, as far as the handler asks: is \<^verbatim>\<open>stop\<close> a function.\<close>

record adapter =
  has_stop :: bool

datatype js_error = TypeError

datatype retval = Null | Undefined | True_val

datatype res = Returned retval | Thrown js_error

text \<open>
  The fields of the class, then the module-level values it reads, which are inputs of the
  model: \<^verbatim>\<open>connectVersion\<close> (shared/sharedInternals), \<^verbatim>\<open>Utils.SESSION_ID\<close>,
  \<^verbatim>\<open>Utils.SDK_LOCATION\<close> and the answer of \<^verbatim>\<open>Utils.checkVersionException()\<close> (by the
  spec a flag that suppresses version enforcement). The last field is the trace.
\<close>

record state =
  requestImplementation :: "adapter option"
  connectStatus :: status
  nextId :: nat
  idCallbackHash :: "nat \<rightharpoonup> request"
  requestQueue :: "request list"
  statusListener :: "nat option"
  minVersion :: string
  pollingRequestErrors :: nat
  connectVersion :: string
  SESSION_ID :: string
  SDK_LOCATION :: string
  versionException :: bool
  trace :: "effect list"

definition new_RequestHandler :: "string \<Rightarrow> string \<Rightarrow> string \<Rightarrow> bool \<Rightarrow> state" where
  "new_RequestHandler cv sid loc exc =
     \<lparr> requestImplementation = None, connectStatus = INITIALIZING, nextId = 0,
       idCallbackHash = Map.empty, requestQueue = [], statusListener = None,
       minVersion = [], pollingRequestErrors = 0, connectVersion = cv,
       SESSION_ID = sid, SDK_LOCATION = loc, versionException = exc, trace = [] \<rparr>"

subsection \<open>Utils.versionLessThan\<close>

text \<open>
  Modelled from the spec: \<^verbatim>\<open>Utils.versionLessThan\<close> (module utils, not among the sources).
  "Version comparison is a dotted-numeric compare (each segment compared as an integer,
  missing segments treated as 0); ties are not less than." A segment is read as the
  decimal number of its leading digits, 0 when it has none.
\<close>

fun split_dots :: "string \<Rightarrow> string list" where
  "split_dots [] = [[]]"
| "split_dots (c # cs) =
     (if c = CHR ''.'' then [] # split_dots cs
      else (case split_dots cs of [] \<Rightarrow> [[c]] | seg # segs \<Rightarrow> (c # seg) # segs))"

fun position_in :: "nat \<Rightarrow> char \<Rightarrow> string \<Rightarrow> nat option" where
  "position_in i c [] = None"
| "position_in i c (d # ds) = (if c = d then Some i else position_in (Suc i) c ds)"

definition digit_of :: "char \<Rightarrow> nat option" where
  "digit_of c = position_in 0 c ''0123456789''"

fun segment_int :: "nat \<Rightarrow> string \<Rightarrow> nat" where
  "segment_int acc [] = acc"
| "segment_int acc (c # cs) =
     (case digit_of c of None \<Rightarrow> acc | Some d \<Rightarrow> segment_int (10 * acc + d) cs)"

definition segments :: "string \<Rightarrow> nat list" where
  "segments v = map (segment_int 0) (split_dots v)"

fun segments_less :: "nat list \<Rightarrow> nat list \<Rightarrow> bool" where
  "segments_less [] [] = False"
| "segments_less [] (y # ys) = (0 < y \<or> segments_less [] ys)"
| "segments_less (x # xs) [] = (x = 0 \<and> segments_less xs [])"
| "segments_less (x # xs) (y # ys) = (x < y \<or> (x = y \<and> segments_less xs ys))"

definition versionLessThan :: "string \<Rightarrow> string \<Rightarrow> bool" where
  "versionLessThan a b = segments_less (segments a) (segments b)"

text \<open>The \<open>i\<close>-th segment of a version, 0 when it is missing.\<close>

definition segment_at :: "nat list \<Rightarrow> nat \<Rightarrow> nat" where
  "segment_at xs i = (if i < length xs then xs ! i else 0)"

subsection \<open>String.prototype.indexOf\<close>

text \<open>The index of the first occurrence of \<open>pat\<close> in the string, \<open>-1\<close> when there is none.\<close>

fun indexOf_from :: "nat \<Rightarrow> string \<Rightarrow> string \<Rightarrow> int" where
  "indexOf_from i [] pat = (if pat = [] then int i else - 1)"
| "indexOf_from i (c # cs) pat =
     (if take (length pat) (c # cs) = pat then int i else indexOf_from (Suc i) cs pat)"

definition indexOf :: "string \<Rightarrow> string \<Rightarrow> int" where
  "indexOf s pat = indexOf_from 0 s pat"

subsection \<open>The methods of RequestHandler\<close>

definition emit :: "effect \<Rightarrow> state \<Rightarrow> state" where
  "emit e s = s\<lparr>trace := trace s @ [e]\<rparr>"

text \<open>
  \<^verbatim>\<open>this.requestImplementation.httpRequest(method, path, data, callback, id, sessionId)\<close>:
  a TypeError while \<^verbatim>\<open>requestImplementation\<close> is \<^verbatim>\<open>null\<close>.
\<close>

definition httpRequest ::
  "string \<Rightarrow> string \<Rightarrow> jsdata \<Rightarrow> callback \<Rightarrow> nat \<Rightarrow> string option \<Rightarrow> state \<Rightarrow> res \<times> state" where
  "httpRequest m p d cb rid sid s =
     (case requestImplementation s of
        None \<Rightarrow> (Thrown TypeError, s)
      | Some a \<Rightarrow> (Returned Undefined, emit (HttpRequest m p d cb rid sid) s))"

text \<open>The loop of \<^verbatim>\<open>processQueue\<close>: pop the last request, send it, until the queue is empty.\<close>

function processQueue :: "state \<Rightarrow> res \<times> state" where
  "processQueue s =
     (if length (requestQueue s) > 0 then
        (let requestInfo = last (requestQueue s);
             s1 = s\<lparr>requestQueue := butlast (requestQueue s)\<rparr>
         in case httpRequest (method_r requestInfo) (path requestInfo) (data requestInfo)
                   To_handleResponse (id_r requestInfo) (Some (SESSION_ID s1)) s1 of
              (Thrown e, s2) \<Rightarrow> (Thrown e, s2)
            | (Returned v, s2) \<Rightarrow> processQueue s2)
      else (Returned Null, s))"
  by pat_completeness auto
termination
proof (relation "measure (\<lambda>s. length (requestQueue s))")
  show "wf (measure (\<lambda>s. length (requestQueue s)))"
    by simp
next
  fix s s1 s2 :: state and requestInfo :: request and x :: res
  assume nonempty: "0 < length (requestQueue s)"
    and s1: "s1 = s\<lparr>requestQueue := butlast (requestQueue s)\<rparr>"
    and sent: "(x, s2) = httpRequest (method_r requestInfo) (path requestInfo) (data requestInfo)
                 To_handleResponse (id_r requestInfo) (Some (SESSION_ID s1)) s1"
  from sent have "requestQueue s2 = requestQueue s1"
    by (auto simp: httpRequest_def emit_def split: option.splits)
  with nonempty s1 show "(s2, s) \<in> measure (\<lambda>s. length (requestQueue s))"
    by simp
qed

text \<open>
  Sequencing of two calls: an exception of the first call leaves the method at once, with
  the state the call left; otherwise the rest of the method runs (no method of the handler
  uses the value another method returns).
\<close>

definition and_then :: "res \<times> state \<Rightarrow> (state \<Rightarrow> res \<times> state) \<Rightarrow> res \<times> state" where
  "and_then r f = (case r of (Thrown e, s) \<Rightarrow> (Thrown e, s) | (Returned v, s) \<Rightarrow> f s)"

definition checkVersion :: "state \<Rightarrow> res \<times> state" where
  "checkVersion s =
     (let requestId = nextId s;
          s1 = s\<lparr>nextId := nextId s + 1\<rparr>;
          requestInfo = \<lparr> id_r = requestId, method_r = HTTP_METHOD_GET,
                          path = ''/connect/info/version'', data = Null_data,
                          callbacks = None \<rparr>;
          s2 = s1\<lparr>idCallbackHash := (idCallbackHash s1)(requestId \<mapsto> requestInfo)\<rparr>
      in httpRequest HTTP_METHOD_GET ''/connect/info/version'' Null_data
           To_checkVersionCallback requestId None s2)"

definition changeConnectStatus :: "status \<Rightarrow> state \<Rightarrow> res \<times> state" where
  "changeConnectStatus newConnectStatus s =
     (let s1 = emit (Logger_debug_status (connectStatus s) newConnectStatus) s;
          s2 = s1\<lparr>connectStatus := newConnectStatus\<rparr>
      in and_then (if connectStatus s2 = RUNNING then processQueue s2 else (Returned Null, s2))
           (\<lambda>s3. if connectStatus s3 = DEGRADED then
                   and_then (checkVersion s3) (\<lambda>s4. (Returned Undefined, s4))
                 else
                   (case statusListener s3 of
                      None \<Rightarrow> (Returned Null, s3)
                    | Some l \<Rightarrow>
                        (Returned Null, emit (Listener_call l (connectStatus s3)) s3))))"

text \<open>
  The request that tells Connect to show its update interface (lines 113 to 121, inside
  \<open>checkVersionCallback\<close>).
\<close>

definition require_update :: "state \<Rightarrow> res \<times> state" where
  "require_update s =
     (let requestId = nextId s;
          s1 = s\<lparr>nextId := nextId s + 1\<rparr>;
          requestInfo = \<lparr> id_r = requestId, method_r = HTTP_METHOD_POST,
                          path = ''/connect/update/require'', data = Null_data,
                          callbacks = None \<rparr>;
          s2 = s1\<lparr>idCallbackHash := (idCallbackHash s1)(requestId \<mapsto> requestInfo)\<rparr>
      in and_then
           (httpRequest HTTP_METHOD_POST ''/connect/update/require''
              (Stringify_update (minVersion s2) (SDK_LOCATION s2))
              To_null requestId (Some (SESSION_ID s2)) s2)
           (\<lambda>s3. (Returned Undefined, s3)))"

definition checkVersionCallback :: "int \<Rightarrow> parsed \<Rightarrow> nat \<Rightarrow> state \<Rightarrow> res \<times> state" where
  "checkVersionCallback httpCode parsedResponse requestId s =
     (let s1 = s\<lparr>idCallbackHash := (idCallbackHash s)(requestId := None)\<rparr> in
      if httpCode = 200 \<and> has_error parsedResponse then
        (Returned Undefined, emit Logger_error_parse s1)
      else
        (let s2 = (if httpCode = 200 then s1\<lparr>connectVersion := version parsedResponse\<rparr>
                   else s1)
         in if connectStatus s2 = OUTDATED \<and> \<not> versionException s2 then
              (Returned Undefined, s2)
            else if \<not> versionException s2 then
              (let s3 = (if minVersion s2 = [] \<or>
                            versionLessThan (minVersion s2) MIN_SECURE_VERSION
                         then s2\<lparr>minVersion := MIN_SECURE_VERSION\<rparr> else s2)
               in if versionLessThan (connectVersion s3) (minVersion s3) then
                    and_then (changeConnectStatus OUTDATED s3) require_update
                  else
                    and_then (changeConnectStatus RUNNING s3)
                      (\<lambda>s4. (Returned Undefined, s4)))
            else
              and_then (changeConnectStatus RUNNING s2) (\<lambda>s4. (Returned Undefined, s4))))"

text \<open>
  A call \<^verbatim>\<open>requestInfo.callbacks.f(arg)\<close>: a TypeError when \<^verbatim>\<open>callbacks\<close> is \<^verbatim>\<open>null\<close>
  (the requests that \<open>checkVersion\<close> and \<open>checkVersionCallback\<close> store).
\<close>

definition call_callback ::
  "request \<Rightarrow> (callbacks \<Rightarrow> fn) \<Rightarrow> cb_arg \<Rightarrow> state \<Rightarrow> res \<times> state" where
  "call_callback requestInfo f arg s =
     (case callbacks requestInfo of
        None \<Rightarrow> (Thrown TypeError, s)
      | Some cbs \<Rightarrow> (Returned Undefined, emit (Callback_call (f cbs) arg) s))"

definition handleResponse :: "int \<Rightarrow> parsed \<Rightarrow> nat \<Rightarrow> state \<Rightarrow> res \<times> state" where
  "handleResponse httpCode parsedResponse requestId s =
     (if connectStatus s = STOPPED then (Returned Null, emit Logger_debug_stopped s)
      else case idCallbackHash s requestId of
        None \<Rightarrow> (Returned Undefined, s)
      | Some requestInfo \<Rightarrow>
          if httpCode = 0 then
            (if pollingRequestErrors s < MAX_POLLING_ERRORS
                \<and> indexOf (path requestInfo) ''/connect/transfers/activity'' > 0 then
               and_then
                 (call_callback requestInfo error Empty_object
                    (s\<lparr>pollingRequestErrors := pollingRequestErrors s + 1\<rparr>))
                 (\<lambda>s1. (Returned Undefined, s1))
             else (Returned Null, s\<lparr>requestQueue := requestQueue s @ [requestInfo]\<rparr>))
          else
            and_then
              (if connectStatus s \<noteq> RUNNING then changeConnectStatus RUNNING s
               else (Returned Null, s))
              (\<lambda>s1. and_then
                 (if httpCode = 200 \<and> \<not> has_error parsedResponse then
                    call_callback requestInfo success (Parsed_response parsedResponse)
                      (s1\<lparr>pollingRequestErrors := 0\<rparr>)
                  else
                    call_callback requestInfo error (Parsed_response parsedResponse) s1)
                 (\<lambda>s2. (Returned Null,
                         s2\<lparr>idCallbackHash := (idCallbackHash s2)(requestId := None)\<rparr>))))"

definition addStatusListener :: "nat \<Rightarrow> state \<Rightarrow> res \<times> state" where
  "addStatusListener callback s = (Returned Undefined, s\<lparr>statusListener := Some callback\<rparr>)"

text \<open>
  The argument \<^verbatim>\<open>callbacks\<close> of \<open>start\<close>: \<open>None\<close> for \<^verbatim>\<open>""\<close>, \<^verbatim>\<open>null\<close> or
  \<^verbatim>\<open>undefined\<close>; otherwise an object, of which each of \<^verbatim>\<open>success\<close> and \<^verbatim>\<open>error\<close> is a
  function or not.
\<close>

definition prepare_callbacks :: "(fn option \<times> fn option) option \<Rightarrow> callbacks" where
  "prepare_callbacks cbs =
     (let (s, e) = (case cbs of None \<Rightarrow> (None, None) | Some c \<Rightarrow> c)
      in \<lparr> success = (case s of None \<Rightarrow> Noop | Some f \<Rightarrow> f),
           error = (case e of None \<Rightarrow> Noop | Some f \<Rightarrow> f) \<rparr>)"

definition start ::
  "string \<Rightarrow> string \<Rightarrow> jsdata \<Rightarrow> string option \<Rightarrow> (fn option \<times> fn option) option
     \<Rightarrow> state \<Rightarrow> res \<times> state" where
  "start m p d sessionId cbs s =
     (if connectStatus s = STOPPED then (Returned Null, s)
      else
        (let requestId = nextId s;
             s1 = s\<lparr>nextId := nextId s + 1\<rparr>;
             requestInfo = \<lparr> id_r = requestId, method_r = m, path = p, data = d,
                             callbacks = Some (prepare_callbacks cbs) \<rparr>;
             s2 = s1\<lparr>idCallbackHash := (idCallbackHash s1)(requestId \<mapsto> requestInfo)\<rparr>
         in and_then
              (if connectStatus s2 = DEGRADED then checkVersion s2 else (Returned Undefined, s2))
              (\<lambda>s3. if connectStatus s3 \<noteq> RUNNING then
                      (Returned Null, s3\<lparr>requestQueue := requestQueue s3 @ [requestInfo]\<rparr>)
                    else
                      and_then (httpRequest m p d To_handleResponse requestId sessionId s3)
                        (\<lambda>s4. (Returned Null, s4)))))"

definition stopRequests :: "state \<Rightarrow> res \<times> state" where
  "stopRequests s =
     (let s1 = s\<lparr>connectStatus := STOPPED\<rparr>
      in case requestImplementation s1 of
           None \<Rightarrow> (Thrown TypeError, s1)
         | Some a \<Rightarrow>
             (Returned True_val, if has_stop a then emit Adapter_stop s1 else s1))"

text \<open>
  Of \<open>init\<close>, the part inside the handler: the first two statements, the assignment of
  \<^verbatim>\<open>setRequestImpl\<close>, and the callback of the initialize timeout. Which adapter is chosen,
  and when, is decided by the adapters and the browser.

  Of the options of \<open>init\<close>, the handler keeps \<^verbatim>\<open>minVersion\<close>. Its \<^verbatim>\<open>sdkLocation\<close>, the
  location that the page configured, goes into the options of the adapter's own
  \<^verbatim>\<open>init\<close> and nowhere else: the handler does not store it, and the update request of
  \<open>checkVersionCallback\<close> reads \<^verbatim>\<open>Utils.SDK_LOCATION\<close> instead (the assignment of the
  configured location to it, connect.ts line 175, is commented out).
\<close>

record init_options =
  options_minVersion :: string
  options_sdkLocation :: string

definition init_begin :: "init_options \<Rightarrow> state \<Rightarrow> res \<times> state" where
  "init_begin opts s =
     and_then (changeConnectStatus INITIALIZING s)
       (\<lambda>s1. (Returned Undefined, s1\<lparr>minVersion := options_minVersion opts\<rparr>))"

definition setRequestImpl :: "adapter \<Rightarrow> state \<Rightarrow> res \<times> state" where
  "setRequestImpl impl s = (Returned Undefined, s\<lparr>requestImplementation := Some impl\<rparr>)"

definition initializeTimeoutCallback :: "state \<Rightarrow> res \<times> state" where
  "initializeTimeoutCallback s =
     (if connectStatus s \<noteq> RUNNING \<and> connectStatus s \<noteq> OUTDATED then
        and_then (changeConnectStatus FAILED (emit Logger_log_timeout s))
          (\<lambda>s1. (Returned Undefined, s1))
      else (Returned Undefined, s))"

subsection \<open>Runs of the handler\<close>

text \<open>
  What can happen to a handler: a call of one of its methods by the page, an answer or a
  status signal of the adapter, the timer of \<open>init\<close>, a change of the version exception.
  (\<open>processQueue\<close> and \<open>require_update\<close> only run inside \<open>changeConnectStatus\<close> and
  \<open>checkVersionCallback\<close>.)
\<close>

datatype event =
  Start string string jsdata "string option" "(fn option \<times> fn option) option"
  | HandleResponse int parsed nat
  | CheckVersionCallback int parsed nat
  | CheckVersion
  | ChangeConnectStatus status
  | AddStatusListener nat
  | StopRequests
  | InitBegin init_options
  | SetRequestImpl adapter
  | InitializeTimeout
  | SetVersionException bool

fun step :: "event \<Rightarrow> state \<Rightarrow> res \<times> state" where
  "step (Start m p d sid cbs) s = start m p d sid cbs s"
| "step (HandleResponse c r i) s = handleResponse c r i s"
| "step (CheckVersionCallback c r i) s = checkVersionCallback c r i s"
| "step CheckVersion s = checkVersion s"
| "step (ChangeConnectStatus st) s = changeConnectStatus st s"
| "step (AddStatusListener l) s = addStatusListener l s"
| "step StopRequests s = stopRequests s"
| "step (InitBegin v) s = init_begin v s"
| "step (SetRequestImpl a) s = setRequestImpl a s"
| "step InitializeTimeout s = initializeTimeoutCallback s"
| "step (SetVersionException b) s = (Returned Undefined, s\<lparr>versionException := b\<rparr>)"

text \<open>An exception ends the event, not the handler: the next event finds the state it left.\<close>

fun run :: "event list \<Rightarrow> state \<Rightarrow> state" where
  "run [] s = s"
| "run (e # es) s = run es (snd (step e s))"

section \<open>Status management of the Connect object (packages/browser/src/connect.ts)\<close>








datatype connect_effect =
  ConnectHttpRequest string string
  | Status_listener_call nat string string
  | Logger_debug_connect string string

text \<open>
  A status listener is a function of the page. What a call of it does to the list of
  status listeners (through \<^verbatim>\<open>addEventListener\<close> and \<^verbatim>\<open>removeEventListener\<close>, which push
  to the array, splice it or replace it) is the field \<open>listener_action\<close>, a function of the
  listener and of the list it finds. The call is taken to return, and its effects on
  anything but this list are not modelled.
\<close>

record connect =
  statusListeners :: "nat list"
  connectStatus_c :: string
  DRAGDROP_ENABLED :: bool
  listener_action :: "nat \<Rightarrow> nat list \<Rightarrow> nat list"
  trace_c :: "connect_effect list"











section \<open>Vocabulary of the properties\<close>

text \<open>The call that \<open>processQueue\<close> and \<open>start\<close> make for a request of the page.\<close>

definition send_of :: "string \<Rightarrow> request \<Rightarrow> effect" where
  "send_of sid r =
     HttpRequest (method_r r) (path r) (data r) To_handleResponse (id_r r) (Some sid)"

text \<open>The call of the registered status listener, if there is one.\<close>

definition listener_calls :: "state \<Rightarrow> status \<Rightarrow> effect list" where
  "listener_calls s st =
     (case statusListener s of None \<Rightarrow> [] | Some l \<Rightarrow> [Listener_call l st])"

text \<open>The entry that \<open>checkVersion\<close> stores under a fresh id.\<close>

definition version_request :: "nat \<Rightarrow> request" where
  "version_request i =
     \<lparr> id_r = i, method_r = HTTP_METHOD_GET, path = ''/connect/info/version'',
       data = Null_data, callbacks = None \<rparr>"


text \<open>The entry that \<open>start\<close> stores under a fresh id.\<close>

definition client_request ::
  "nat \<Rightarrow> string \<Rightarrow> string \<Rightarrow> jsdata \<Rightarrow> (fn option \<times> fn option) option \<Rightarrow> request" where
  "client_request i m p d cbs =
     \<lparr> id_r = i, method_r = m, path = p, data = d,
       callbacks = Some (prepare_callbacks cbs) \<rparr>"

text \<open>What a method call added to the trace.\<close>

definition emitted :: "state \<Rightarrow> state \<Rightarrow> effect list" where
  "emitted s s' = drop (length (trace s)) (trace s')"



fun is_listener_call :: "effect \<Rightarrow> bool" where
  "is_listener_call (Listener_call l st) = True"
| "is_listener_call e = False"







definition deliver :: "int \<Rightarrow> parsed \<Rightarrow> nat \<Rightarrow> request \<Rightarrow> state \<Rightarrow> res \<times> state" where
  "deliver c p i r s =
     and_then
       (if c = 200 \<and> \<not> has_error p then
          call_callback r success (Parsed_response p) (s\<lparr>pollingRequestErrors := 0\<rparr>)
        else call_callback r error (Parsed_response p) s)
       (\<lambda>s2. (Returned Null, s2\<lparr>idCallbackHash := (idCallbackHash s2)(i := None)\<rparr>))"





subsection \<open>Example handlers\<close>

definition http_adapter :: adapter where
  "http_adapter = \<lparr> has_stop = True \<rparr>"

definition fresh_handler :: state where
  "fresh_handler = new_RequestHandler [] ''session-1'' ''//sdk.example/connect/v4'' False"

text \<open>
  The Connect object has registered its listener and called \<open>init\<close> with no minimum
  version; the extension detection has not answered yet, no adapter is set.
\<close>

definition example_options :: init_options where
  "example_options =
     \<lparr> options_minVersion = [], options_sdkLocation = ''//sdk.example/connect/v4'' \<rparr>"

definition detecting_handler :: state where
  "detecting_handler = run [AddStatusListener 7, InitBegin example_options] fresh_handler"

text \<open>The same, after \<open>init\<close> chose the HTTP adapter.\<close>

definition ready_handler :: state where
  "ready_handler =
     run [AddStatusListener 7, InitBegin example_options, SetRequestImpl http_adapter]
       fresh_handler"



definition stopped_checking_handler :: state where
  "stopped_checking_handler = run [CheckVersion, StopRequests] ready_handler"


text \<open>A request of the page is sent while Connect runs, then Connect is found outdated.\<close>

definition outdated_handler :: state where
  "outdated_handler =
     run [ChangeConnectStatus RUNNING,
          Start ''GET'' ''/connect/info/ping'' Null_data (Some ''session-1'')
            (Some (Some (User_fn 1), Some (User_fn 2))),
          ChangeConnectStatus OUTDATED]
       ready_handler"



text \<open>
  Connect is running and an activity poll is in flight: with the path that connect.ts
  passes to \<open>start\<close>, and with a path that carries a version prefix.
\<close>

definition activity_callbacks :: "(fn option \<times> fn option) option" where
  "activity_callbacks = Some (Some (User_fn 1), Some (User_fn 2))"

definition polling_handler :: state where
  "polling_handler =
     run [ChangeConnectStatus RUNNING,
          Start ''POST'' ''/connect/transfers/activity'' (String_data ''{}'')
            (Some ''session-1'') activity_callbacks]
       ready_handler"

definition prefixed_polling_handler :: state where
  "prefixed_polling_handler =
     run [ChangeConnectStatus RUNNING,
          Start ''POST'' ''/v6/connect/transfers/activity'' (String_data ''{}'')
            (Some ''session-1'') activity_callbacks]
       ready_handler"

text \<open>Parsed answers: of the version endpoint, an error, and the empty object.\<close>

definition version_response :: "string \<Rightarrow> parsed" where
  "version_response v = \<lparr> has_error = False, version = v, content = [] \<rparr>"

definition error_response :: parsed where
  "error_response = \<lparr> has_error = True, version = [], content = ''error 500'' \<rparr>"

definition no_answer :: parsed where
  "no_answer = \<lparr> has_error = False, version = [], content = [] \<rparr>"







section \<open>Properties\<close>

subsection \<open>Version comparison\<close>

lemma segment_at_simps:
  "segment_at [] i = 0"
  "segment_at (x # xs) 0 = x"
  "segment_at (x # xs) (Suc i) = segment_at xs i"
  by (simp_all add: segment_at_def)

lemma ex_nat_split: "(\<exists>i::nat. P i) \<longleftrightarrow> P 0 \<or> (\<exists>i. P (Suc i))"
  by (metis not0_implies_Suc)

lemma all_less_Suc_split: "(\<forall>j<Suc i. Q j) \<longleftrightarrow> Q 0 \<and> (\<forall>j<i. Q (Suc j))"
  by (metis less_Suc_eq_0_disj)

lemma segments_less_iff:
  "segments_less xs ys \<longleftrightarrow>
     (\<exists>i. segment_at xs i < segment_at ys i \<and> (\<forall>j<i. segment_at xs j = segment_at ys j))"
proof (induction xs ys rule: segments_less.induct)
  case 1
  show ?case by (simp add: segment_at_simps)
next
  case (2 y ys)
  show ?case
    apply (subst ex_nat_split)
    apply (simp add: segment_at_simps all_less_Suc_split 2)
    by auto
next
  case (3 x xs)
  show ?case
    apply (subst ex_nat_split)
    apply (simp add: segment_at_simps all_less_Suc_split 3)
    done
next
  case (4 x xs y ys)
  show ?case
    apply (subst ex_nat_split)
    apply (simp add: segment_at_simps all_less_Suc_split 4)
    by auto
qed

lemma versionLessThan_irrefl: "\<not> versionLessThan v v"
  by (simp add: versionLessThan_def segments_less_iff)

lemma segments_examples:
  "segments ''3.8.0'' = [3, 8, 0]" "segments ''3.8'' = [3, 8]"
  "segments ''3.7.9'' = [3, 7, 9]" "segments ''3.7.0'' = [3, 7, 0]"
  by (simp_all add: segments_def digit_of_def)

text \<open>
  Claim C7. The version comparison of the gate is a dotted-numeric compare: \<open>a\<close> is less
  than \<open>b\<close> exactly when, at the first position where the integer values of their
  dot-separated segments differ, the segment of \<open>a\<close> is the smaller one, a missing
  segment counting as 0; equal versions are not less than each other. In particular
  "3.8.0" is not less than "3.8", and "3.7.9" is less than "3.8.0".
\<close>

theorem versionLessThan_dotted_numeric:
  "(versionLessThan a b \<longleftrightarrow>
      (\<exists>i. segment_at (segments a) i < segment_at (segments b) i
          \<and> (\<forall>j<i. segment_at (segments a) j = segment_at (segments b) j)))
   \<and> \<not> versionLessThan a a
   \<and> segments ''3.8.0'' = [3, 8, 0] \<and> segments ''3.8'' = [3, 8]
   \<and> \<not> versionLessThan ''3.8.0'' ''3.8''
   \<and> versionLessThan ''3.7.9'' ''3.8.0''"
proof -
  have "\<not> versionLessThan ''3.8.0'' ''3.8''" "versionLessThan ''3.7.9'' ''3.8.0''"
    by (simp_all add: versionLessThan_def segments_examples)
  then show ?thesis
    using versionLessThan_irrefl [of a] segments_less_iff [of "segments a" "segments b"]
    by (simp add: versionLessThan_def [of a b] segments_examples)
qed

theorem versionLessThan_dotted_numeric_witness:
  "versionLessThan ''3.7.9'' ''3.8.0''
   \<and> (\<exists>i. segment_at (segments ''3.7.9'') i < segment_at (segments ''3.8.0'') i
          \<and> (\<forall>j<i. segment_at (segments ''3.7.9'') j = segment_at (segments ''3.8.0'') j))"
  using versionLessThan_dotted_numeric [of "''3.7.9''" "''3.8.0''"]
  by blast

subsection \<open>The methods, case by case\<close>

declare processQueue.simps [simp del]

lemma and_then_Returned: "and_then (Returned v, s) f = f s"
  by (simp add: and_then_def)

lemma and_then_Thrown: "and_then (Thrown e, s) f = (Thrown e, s)"
  by (simp add: and_then_def)


lemma httpRequest_Some:
  "requestImplementation s = Some a \<Longrightarrow>
   httpRequest m p d cb i sid s = (Returned Undefined, emit (HttpRequest m p d cb i sid) s)"
  by (simp add: httpRequest_def)

lemma httpRequest_None:
  "requestImplementation s = None \<Longrightarrow> httpRequest m p d cb i sid s = (Thrown TypeError, s)"
  by (simp add: httpRequest_def)

lemma processQueue_Some_aux:
  "requestImplementation s = Some a \<Longrightarrow> requestQueue s = q \<Longrightarrow>
   processQueue s =
     (Returned Null,
      s\<lparr>requestQueue := [], trace := trace s @ map (send_of (SESSION_ID s)) (rev q)\<rparr>)"
proof (induction q arbitrary: s rule: rev_induct)
  case Nil
  then show ?case
    by (subst processQueue.simps) (cases s, simp)
next
  case (snoc r q)
  let ?s1 = "s\<lparr>requestQueue := q\<rparr>"
  let ?s2 = "emit (send_of (SESSION_ID s) r) ?s1"
  have "processQueue s = processQueue ?s2"
    using snoc.prems
    by (subst processQueue.simps) (simp add: httpRequest_Some emit_def send_of_def)
  also have "\<dots> = (Returned Null,
      ?s2\<lparr>requestQueue := [], trace := trace ?s2 @ map (send_of (SESSION_ID ?s2)) (rev q)\<rparr>)"
    using snoc.prems by (intro snoc.IH) (simp_all add: emit_def)
  finally show ?case
    by (simp add: emit_def)
qed

lemma processQueue_Some:
  "requestImplementation s = Some a \<Longrightarrow>
   processQueue s =
     (Returned Null,
      s\<lparr>requestQueue := [],
        trace := trace s @ map (send_of (SESSION_ID s)) (rev (requestQueue s))\<rparr>)"
  by (rule processQueue_Some_aux) simp_all

lemma processQueue_None:
  "requestImplementation s = None \<Longrightarrow>
   processQueue s =
     (if requestQueue s = [] then (Returned Null, s)
      else (Thrown TypeError, s\<lparr>requestQueue := butlast (requestQueue s)\<rparr>))"
  by (subst processQueue.simps) (simp add: httpRequest_None)

lemma checkVersion_eq:
  "checkVersion s =
     (case requestImplementation s of
        None \<Rightarrow> (Thrown TypeError,
                 s\<lparr>nextId := nextId s + 1,
                   idCallbackHash := (idCallbackHash s)(nextId s \<mapsto> version_request (nextId s))\<rparr>)
      | Some a \<Rightarrow> (Returned Undefined,
                 s\<lparr>nextId := nextId s + 1,
                   idCallbackHash := (idCallbackHash s)(nextId s \<mapsto> version_request (nextId s)),
                   trace := trace s @ [HttpRequest HTTP_METHOD_GET ''/connect/info/version''
                                         Null_data To_checkVersionCallback (nextId s) None]\<rparr>))"
  by (simp add: checkVersion_def httpRequest_def emit_def Let_def version_request_def
        split: option.splits)


lemma changeConnectStatus_plain:
  "new \<noteq> RUNNING \<Longrightarrow> new \<noteq> DEGRADED \<Longrightarrow>
   changeConnectStatus new s =
     (Returned Null,
      s\<lparr>connectStatus := new,
        trace := trace s @ Logger_debug_status (connectStatus s) new # listener_calls s new\<rparr>)"
  by (simp add: changeConnectStatus_def emit_def Let_def and_then_def listener_calls_def
        split: option.splits)

lemma changeConnectStatus_RUNNING_Some:
  "requestImplementation s = Some a \<Longrightarrow>
   changeConnectStatus RUNNING s =
     (Returned Null,
      s\<lparr>connectStatus := RUNNING, requestQueue := [],
        trace := trace s @ Logger_debug_status (connectStatus s) RUNNING
                   # map (send_of (SESSION_ID s)) (rev (requestQueue s))
                   @ listener_calls s RUNNING\<rparr>)"
  by (simp add: changeConnectStatus_def emit_def Let_def and_then_def listener_calls_def
        processQueue_Some split: option.splits)

lemma changeConnectStatus_RUNNING_None:
  "requestImplementation s = None \<Longrightarrow>
   changeConnectStatus RUNNING s =
     (if requestQueue s = [] then
        (Returned Null,
         s\<lparr>connectStatus := RUNNING,
           trace := trace s @ Logger_debug_status (connectStatus s) RUNNING
                      # listener_calls s RUNNING\<rparr>)
      else
        (Thrown TypeError,
         s\<lparr>connectStatus := RUNNING, requestQueue := butlast (requestQueue s),
           trace := trace s @ [Logger_debug_status (connectStatus s) RUNNING]\<rparr>))"
  by (simp add: changeConnectStatus_def emit_def Let_def and_then_def listener_calls_def
        processQueue_None split: option.splits)

lemma changeConnectStatus_DEGRADED:
  "changeConnectStatus DEGRADED s =
     (case requestImplementation s of
        None \<Rightarrow> (Thrown TypeError,
                 s\<lparr>connectStatus := DEGRADED, nextId := nextId s + 1,
                   idCallbackHash := (idCallbackHash s)(nextId s \<mapsto> version_request (nextId s)),
                   trace := trace s @ [Logger_debug_status (connectStatus s) DEGRADED]\<rparr>)
      | Some a \<Rightarrow> (Returned Undefined,
                 s\<lparr>connectStatus := DEGRADED, nextId := nextId s + 1,
                   idCallbackHash := (idCallbackHash s)(nextId s \<mapsto> version_request (nextId s)),
                   trace := trace s @ [Logger_debug_status (connectStatus s) DEGRADED,
                      HttpRequest HTTP_METHOD_GET ''/connect/info/version''
                        Null_data To_checkVersionCallback (nextId s) None]\<rparr>))"
  by (simp add: changeConnectStatus_def emit_def Let_def and_then_def checkVersion_eq
        split: option.splits)






lemma handleResponse_poll_error:
  "connectStatus s \<noteq> STOPPED \<Longrightarrow> idCallbackHash s i = Some r \<Longrightarrow>
   pollingRequestErrors s < MAX_POLLING_ERRORS \<Longrightarrow>
   indexOf (path r) ''/connect/transfers/activity'' > 0 \<Longrightarrow>
   handleResponse 0 p i s =
     and_then (call_callback r error Empty_object
                 (s\<lparr>pollingRequestErrors := pollingRequestErrors s + 1\<rparr>))
       (\<lambda>s1. (Returned Undefined, s1))"
  by (simp add: handleResponse_def)

lemma handleResponse_requeue:
  "connectStatus s \<noteq> STOPPED \<Longrightarrow> idCallbackHash s i = Some r \<Longrightarrow>
   \<not> (pollingRequestErrors s < MAX_POLLING_ERRORS
      \<and> indexOf (path r) ''/connect/transfers/activity'' > 0) \<Longrightarrow>
   handleResponse 0 p i s = (Returned Null, s\<lparr>requestQueue := requestQueue s @ [r]\<rparr>)"
  by (auto simp: handleResponse_def)

lemma handleResponse_answer:
  "connectStatus s \<noteq> STOPPED \<Longrightarrow> idCallbackHash s i = Some r \<Longrightarrow> c \<noteq> 0 \<Longrightarrow>
   handleResponse c p i s =
     and_then (if connectStatus s \<noteq> RUNNING then changeConnectStatus RUNNING s
               else (Returned Null, s))
       (deliver c p i r)"
  unfolding handleResponse_def deliver_def by simp





subsection \<open>Request ids\<close>























subsection \<open>Queued requests are not sent before a change to RUNNING\<close>























lemma emitted_append: "trace s' = trace s @ out \<Longrightarrow> emitted s s' = out"
  by (simp add: emitted_def)






subsection \<open>An answer of Connect promotes the status to RUNNING\<close>

lemma deliver_eq:
  "deliver c p i r t =
     (case callbacks r of
        None \<Rightarrow> (Thrown TypeError,
                 if c = 200 \<and> \<not> has_error p then t\<lparr>pollingRequestErrors := 0\<rparr> else t)
      | Some cbs \<Rightarrow>
          (Returned Null,
           t\<lparr>pollingRequestErrors :=
                 (if c = 200 \<and> \<not> has_error p then 0 else pollingRequestErrors t),
             idCallbackHash := (idCallbackHash t)(i := None),
             trace := trace t @ [Callback_call
                                   (if c = 200 \<and> \<not> has_error p then success cbs else error cbs)
                                   (Parsed_response p)]\<rparr>))"
proof (cases "c = 200 \<and> \<not> has_error p")
  case True
  then show ?thesis
    by (cases "callbacks r") (simp_all add: deliver_def call_callback_def and_then_def emit_def)
next
  case False
  show ?thesis
    unfolding deliver_def if_not_P [OF False]
    by (cases "callbacks r") (simp_all add: call_callback_def and_then_def emit_def)
qed

lemma deliver_keeps:
  "connectStatus (snd (deliver c p i r t)) = connectStatus t"
  "\<exists>out. trace (snd (deliver c p i r t)) = trace t @ out"
  by (simp_all add: deliver_eq split: option.splits)

lemma changeConnectStatus_RUNNING_always:
  "connectStatus (snd (changeConnectStatus RUNNING s)) = RUNNING"
  "\<exists>out. trace (snd (changeConnectStatus RUNNING s))
            = trace s @ Logger_debug_status (connectStatus s) RUNNING # out"
  by (cases "requestImplementation s";
      simp add: changeConnectStatus_RUNNING_None changeConnectStatus_RUNNING_Some)+

text \<open>
  Claim C9. When \<open>handleResponse\<close> receives a non-zero httpCode for a known request id
  while the status is neither \<open>STOPPED\<close> nor \<open>RUNNING\<close>, the status is \<open>RUNNING\<close>
  afterwards, whatever the answer, and the change to \<open>RUNNING\<close> is the first thing the
  call does: the answer is classified, and the success or the error callback called, only
  after it. With an adapter set and callbacks present, the call logs the change, replays
  the queue, notifies the listener and then calls the one callback. This holds for an
  error answer in status \<open>OUTDATED\<close> as for any other.
\<close>

theorem any_answer_promotes_to_RUNNING:
  assumes "httpCode \<noteq> 0" and "idCallbackHash s requestId = Some requestInfo"
    and "connectStatus s \<noteq> STOPPED" and "connectStatus s \<noteq> RUNNING"
  shows "connectStatus (snd (handleResponse httpCode p requestId s)) = RUNNING
    \<and> (\<exists>rest. emitted s (snd (handleResponse httpCode p requestId s))
                = Logger_debug_status (connectStatus s) RUNNING # rest)
    \<and> (\<forall>a cbs. requestImplementation s = Some a \<and> callbacks requestInfo = Some cbs \<longrightarrow>
          fst (handleResponse httpCode p requestId s) = Returned Null
        \<and> emitted s (snd (handleResponse httpCode p requestId s))
            = Logger_debug_status (connectStatus s) RUNNING
                # map (send_of (SESSION_ID s)) (rev (requestQueue s))
                @ listener_calls s RUNNING
                @ [Callback_call
                     (if httpCode = 200 \<and> \<not> has_error p then success cbs else error cbs)
                     (Parsed_response p)])"
proof -
  let ?first = "changeConnectStatus RUNNING s"
  have eq: "handleResponse httpCode p requestId s
              = and_then ?first (deliver httpCode p requestId requestInfo)"
    using assms by (simp add: handleResponse_answer)
  obtain x s1 where first: "?first = (x, s1)"
    by (cases ?first)
  from changeConnectStatus_RUNNING_always [of s] first
  obtain out where s1: "connectStatus s1 = RUNNING"
    "trace s1 = trace s @ Logger_debug_status (connectStatus s) RUNNING # out"
    by auto
  have status: "connectStatus (snd (handleResponse httpCode p requestId s)) = RUNNING"
    unfolding eq first using s1(1)
    by (cases x) (simp_all add: and_then_def deliver_keeps)
  have log: "\<exists>rest. emitted s (snd (handleResponse httpCode p requestId s))
                = Logger_debug_status (connectStatus s) RUNNING # rest"
  proof (cases x)
    case (Returned v)
    obtain out' where "trace (snd (deliver httpCode p requestId requestInfo s1)) = trace s1 @ out'"
      using deliver_keeps(2) by blast
    then show ?thesis
      unfolding eq first Returned by (simp add: and_then_def s1(2) emitted_def)
  next
    case (Thrown e)
    then show ?thesis
      unfolding eq first by (simp add: and_then_def s1(2) emitted_def)
  qed
  have full: "fst (handleResponse httpCode p requestId s) = Returned Null
        \<and> emitted s (snd (handleResponse httpCode p requestId s))
            = Logger_debug_status (connectStatus s) RUNNING
                # map (send_of (SESSION_ID s)) (rev (requestQueue s))
                @ listener_calls s RUNNING
                @ [Callback_call
                     (if httpCode = 200 \<and> \<not> has_error p then success cbs else error cbs)
                     (Parsed_response p)]"
    if "requestImplementation s = Some a" "callbacks requestInfo = Some cbs" for a cbs
    unfolding eq changeConnectStatus_RUNNING_Some [OF that(1)]
    using that(2) by (simp add: and_then_def deliver_eq emitted_def)
  from status log full show ?thesis
    by blast
qed

theorem any_answer_promotes_to_RUNNING_witness:
  "connectStatus outdated_handler = OUTDATED
   \<and> idCallbackHash outdated_handler 0 \<noteq> None
   \<and> connectStatus (snd (handleResponse 500 error_response 0 outdated_handler)) = RUNNING
   \<and> emitted outdated_handler (snd (handleResponse 500 error_response 0 outdated_handler))
       = [Logger_debug_status OUTDATED RUNNING, Listener_call 7 RUNNING,
          Callback_call (User_fn 2) (Parsed_response error_response)]"
proof -
  have st: "connectStatus outdated_handler = OUTDATED"
    by code_simp
  then have h: "connectStatus outdated_handler \<noteq> STOPPED" "connectStatus outdated_handler \<noteq> RUNNING"
    by simp_all
  have r: "idCallbackHash outdated_handler 0
             = Some (client_request 0 ''GET'' ''/connect/info/ping'' Null_data
                       (Some (Some (User_fn 1), Some (User_fn 2))))"
    by code_simp
  have a: "requestImplementation outdated_handler = Some http_adapter"
    by code_simp
  have c: "callbacks (client_request 0 ''GET'' ''/connect/info/ping'' Null_data
                       (Some (Some (User_fn 1), Some (User_fn 2))))
           = Some \<lparr> success = User_fn 1, error = User_fn 2 \<rparr>"
    by code_simp
  have e: "Logger_debug_status (connectStatus outdated_handler) RUNNING
                # map (send_of (SESSION_ID outdated_handler)) (rev (requestQueue outdated_handler))
                @ listener_calls outdated_handler RUNNING
                @ [Callback_call
                     (if (500::int) = 200 \<and> \<not> has_error error_response
                      then success \<lparr> success = User_fn 1, error = User_fn 2 \<rparr>
                      else error \<lparr> success = User_fn 1, error = User_fn 2 \<rparr>)
                     (Parsed_response error_response)]
       = [Logger_debug_status OUTDATED RUNNING, Listener_call 7 RUNNING,
          Callback_call (User_fn 2) (Parsed_response error_response)]"
    by code_simp
  have nz: "(500::int) \<noteq> 0" by simp
  note main = any_answer_promotes_to_RUNNING [OF nz r h, of error_response]
  from main have 1: "connectStatus (snd (handleResponse 500 error_response 0 outdated_handler)) = RUNNING"
    by blast
  from main a c have 2: "emitted outdated_handler (snd (handleResponse 500 error_response 0 outdated_handler))
    = Logger_debug_status (connectStatus outdated_handler) RUNNING
                # map (send_of (SESSION_ID outdated_handler)) (rev (requestQueue outdated_handler))
                @ listener_calls outdated_handler RUNNING
                @ [Callback_call
                     (if (500::int) = 200 \<and> \<not> has_error error_response
                      then success \<lparr> success = User_fn 1, error = User_fn 2 \<rparr>
                      else error \<lparr> success = User_fn 1, error = User_fn 2 \<rparr>)
                     (Parsed_response error_response)]"
    by blast
  from st r 1 2 show ?thesis
    unfolding e by simp
qed

subsection \<open>Status listeners\<close>









subsection \<open>The version gate\<close>

























subsection \<open>Connection failures of the activity poll\<close>

lemma poll_error_reported:
  assumes "connectStatus s \<noteq> STOPPED" and "idCallbackHash s i = Some r"
    and "callbacks r = Some cbs"
    and "indexOf (path r) ''/connect/transfers/activity'' > 0"
    and "pollingRequestErrors s < MAX_POLLING_ERRORS"
  shows "handleResponse 0 p i s =
           (Returned Undefined,
            s\<lparr>pollingRequestErrors := pollingRequestErrors s + 1,
              trace := trace s @ [Callback_call (error cbs) Empty_object]\<rparr>)"
  unfolding handleResponse_poll_error [OF assms(1,2,5,4)]
  using assms(3) by (simp add: call_callback_def and_then_def emit_def)

lemma poll_error_queued:
  assumes "connectStatus s \<noteq> STOPPED" and "idCallbackHash s i = Some r"
    and "\<not> pollingRequestErrors s < MAX_POLLING_ERRORS"
  shows "handleResponse 0 p i s = (Returned Null, s\<lparr>requestQueue := requestQueue s @ [r]\<rparr>)"
  using assms by (intro handleResponse_requeue) simp_all

text \<open>
  For a request whose path holds the polling path at an index above 0, four connection
  failures in a row: three calls of the error callback, then the request is queued.
\<close>

lemma prefixed_polling_debounce:
  assumes "connectStatus s \<noteq> STOPPED" and "idCallbackHash s i = Some r"
    and "callbacks r = Some cbs"
    and "indexOf (path r) ''/connect/transfers/activity'' > 0"
    and "pollingRequestErrors s = 0"
  shows "run [HandleResponse 0 p i, HandleResponse 0 p i, HandleResponse 0 p i,
              HandleResponse 0 p i] s
         = s\<lparr>pollingRequestErrors := 3,
             trace := trace s @ [Callback_call (error cbs) Empty_object,
                                 Callback_call (error cbs) Empty_object,
                                 Callback_call (error cbs) Empty_object],
             requestQueue := requestQueue s @ [r]\<rparr>"
proof -
  let ?e = "Callback_call (error cbs) Empty_object"
  let ?s1 = "s\<lparr>pollingRequestErrors := 1, trace := trace s @ [?e]\<rparr>"
  let ?s2 = "s\<lparr>pollingRequestErrors := 2, trace := trace s @ [?e, ?e]\<rparr>"
  let ?s3 = "s\<lparr>pollingRequestErrors := 3, trace := trace s @ [?e, ?e, ?e]\<rparr>"
  have 1: "handleResponse 0 p i s = (Returned Undefined, ?s1)"
    using poll_error_reported [OF assms(1-4), of p] assms(5)
    by (simp add: MAX_POLLING_ERRORS_def)
  have 2: "handleResponse 0 p i ?s1 = (Returned Undefined, ?s2)"
    using poll_error_reported [of ?s1 i r cbs p] assms(1-4)
    by (simp add: MAX_POLLING_ERRORS_def)
  have 3: "handleResponse 0 p i ?s2 = (Returned Undefined, ?s3)"
    using poll_error_reported [of ?s2 i r cbs p] assms(1-4)
    by (simp add: MAX_POLLING_ERRORS_def)
  have 4: "handleResponse 0 p i ?s3 = (Returned Null, ?s3\<lparr>requestQueue := requestQueue ?s3 @ [r]\<rparr>)"
    using poll_error_queued [of ?s3 i r p] assms(1,2)
    by (simp add: MAX_POLLING_ERRORS_def)
  show ?thesis
    unfolding run.simps step.simps 1 snd_conv 2 3 4 by simp
qed

text \<open>
  With the polling path itself as the path, every connection failure queues the request.
\<close>

lemma exact_polling_path_is_queued:
  assumes "connectStatus s \<noteq> STOPPED" and "idCallbackHash s i = Some r"
    and "path r = ''/connect/transfers/activity''"
  shows "handleResponse 0 p i s = (Returned Null, s\<lparr>requestQueue := requestQueue s @ [r]\<rparr>)"
proof -
  have "indexOf (path r) ''/connect/transfers/activity'' = 0"
    unfolding assms(3) by code_simp
  with assms(1,2) show ?thesis
    by (intro handleResponse_requeue) simp_all
qed

text \<open>
  Claim C2, evaluated. The activity poll of connect.ts is started with the path
  "/connect/transfers/activity"; \<open>indexOf\<close> finds the polling path in it at index 0, and
  the test of \<open>handleResponse\<close> asks for an index above 0. So the first connection failure
  of the poll already queues the request: the error callback is not called and
  \<open>pollingRequestErrors\<close> stays 0. Only a path that holds the polling path further right
  gets the three error callbacks before the fourth failure is queued.
\<close>

theorem activity_poll_failure_is_queued_at_once:
  "idCallbackHash polling_handler 0
     = Some (client_request 0 ''POST'' ''/connect/transfers/activity'' (String_data ''{}'')
               activity_callbacks)
   \<and> pollingRequestErrors polling_handler = 0
   \<and> indexOf ''/connect/transfers/activity'' ''/connect/transfers/activity'' = 0
   \<and> fst (handleResponse 0 no_answer 0 polling_handler) = Returned Null
   \<and> emitted polling_handler (snd (handleResponse 0 no_answer 0 polling_handler)) = []
   \<and> pollingRequestErrors (snd (handleResponse 0 no_answer 0 polling_handler)) = 0
   \<and> requestQueue (snd (handleResponse 0 no_answer 0 polling_handler))
       = [client_request 0 ''POST'' ''/connect/transfers/activity'' (String_data ''{}'')
            activity_callbacks]
   \<and> indexOf ''/v6/connect/transfers/activity'' ''/connect/transfers/activity'' = 3
   \<and> emitted prefixed_polling_handler
        (run [HandleResponse 0 no_answer 0, HandleResponse 0 no_answer 0,
              HandleResponse 0 no_answer 0, HandleResponse 0 no_answer 0]
           prefixed_polling_handler)
       = [Callback_call (User_fn 2) Empty_object, Callback_call (User_fn 2) Empty_object,
          Callback_call (User_fn 2) Empty_object]
   \<and> requestQueue
        (run [HandleResponse 0 no_answer 0, HandleResponse 0 no_answer 0,
              HandleResponse 0 no_answer 0, HandleResponse 0 no_answer 0]
           prefixed_polling_handler)
       = [client_request 0 ''POST'' ''/v6/connect/transfers/activity'' (String_data ''{}'')
            activity_callbacks]"
  by code_simp

subsection \<open>Callbacks and the table of pending requests\<close>

text \<open>
  Claim C8, evaluated. On the polling-error path \<open>handleResponse\<close> calls the error callback
  of the request and returns with the entry still in \<open>idCallbackHash\<close>; on the path of a
  non-zero code it calls a callback and deletes the entry.
\<close>

theorem polling_error_callback_keeps_entry:
  "idCallbackHash prefixed_polling_handler 0
     = Some (client_request 0 ''POST'' ''/v6/connect/transfers/activity'' (String_data ''{}'')
               activity_callbacks)
   \<and> fst (handleResponse 0 no_answer 0 prefixed_polling_handler) = Returned Undefined
   \<and> emitted prefixed_polling_handler
        (snd (handleResponse 0 no_answer 0 prefixed_polling_handler))
       = [Callback_call (User_fn 2) Empty_object]
   \<and> idCallbackHash (snd (handleResponse 0 no_answer 0 prefixed_polling_handler)) 0
       = Some (client_request 0 ''POST'' ''/v6/connect/transfers/activity'' (String_data ''{}'')
                 activity_callbacks)
   \<and> emitted prefixed_polling_handler
        (snd (handleResponse 500 error_response 0 prefixed_polling_handler))
       = [Callback_call (User_fn 2) (Parsed_response error_response)]
   \<and> idCallbackHash (snd (handleResponse 500 error_response 0 prefixed_polling_handler)) 0
       = None"
  by code_simp

text \<open>
  On every path of \<open>handleResponse\<close> but the polling-error one, a callback is called exactly
  when the entry is deleted.
\<close>

lemma answered_request_is_deleted:
  assumes "connectStatus s \<noteq> STOPPED" and "idCallbackHash s i = Some r" and "c \<noteq> 0"
    and "fst (handleResponse c p i s) = Returned v"
  shows "idCallbackHash (snd (handleResponse c p i s)) i = None"
proof -
  let ?first = "if connectStatus s \<noteq> RUNNING then changeConnectStatus RUNNING s
                else (Returned Null, s)"
  obtain x s1 where first: "?first = (x, s1)"
    by (cases ?first)
  have eq: "handleResponse c p i s = and_then (x, s1) (deliver c p i r)"
    using handleResponse_answer [OF assms(1-3), of p] first by simp
  show ?thesis
  proof (cases x)
    case (Thrown e)
    with eq assms(4) show ?thesis by (simp add: and_then_def)
  next
    case (Returned w)
    with eq assms(4) show ?thesis
      by (cases "callbacks r") (simp_all add: and_then_def deliver_eq)
  qed
qed

subsection \<open>After stopRequests\<close>

text \<open>
  \<open>changeConnectStatus\<close> sets the status it is given, whatever the status was; so the
  initialize timeout replaces \<open>STOPPED\<close> by \<open>FAILED\<close>.
\<close>

lemma changeConnectStatus_sets_status:
  "connectStatus (snd (changeConnectStatus new s)) = new"
proof -
  consider "new = RUNNING" | "new = DEGRADED" | "new \<noteq> RUNNING" "new \<noteq> DEGRADED"
    by blast
  then show ?thesis
  proof cases
    case 1
    then show ?thesis
      by (cases "requestImplementation s")
         (simp_all add: changeConnectStatus_RUNNING_None changeConnectStatus_RUNNING_Some)
  next
    case 2
    then show ?thesis
      by (cases "requestImplementation s") (simp_all add: changeConnectStatus_DEGRADED)
  next
    case 3
    then show ?thesis
      by (simp add: changeConnectStatus_plain)
  qed
qed

lemma timeout_leaves_STOPPED:
  "connectStatus s = STOPPED \<Longrightarrow> connectStatus (snd (initializeTimeoutCallback s)) = FAILED"
  by (simp add: initializeTimeoutCallback_def and_then_def changeConnectStatus_plain)

text \<open>
  Claim C5, evaluated. While the status is \<open>STOPPED\<close>, \<open>start\<close> returns null and changes
  nothing, and \<open>handleResponse\<close> only logs and returns null (lemmas \<open>start_STOPPED\<close> and
  \<open>handleResponse_STOPPED\<close>). But \<open>STOPPED\<close> does not stay: \<open>changeConnectStatus\<close> has no
  guard, so the initialize timeout of \<open>init\<close> replaces \<open>STOPPED\<close> by \<open>FAILED\<close>, and the
  answer to a version check that was in flight replaces it by \<open>RUNNING\<close>, each with a call
  of the status listener; after that \<open>start\<close> creates requests again.
\<close>

theorem STOPPED_is_left_by_timeout_and_version_answer:
  "connectStatus stopped_checking_handler = STOPPED
   \<and> fst (start ''GET'' ''/connect/info/ping'' Null_data (Some ''session-1'') None
           stopped_checking_handler) = Returned Null
   \<and> emitted stopped_checking_handler
        (snd (start ''GET'' ''/connect/info/ping'' Null_data (Some ''session-1'') None
                stopped_checking_handler)) = []
   \<and> fst (handleResponse 200 no_answer 0 stopped_checking_handler) = Returned Null
   \<and> emitted stopped_checking_handler
        (snd (handleResponse 200 no_answer 0 stopped_checking_handler))
       = [Logger_debug_stopped]
   \<and> connectStatus (snd (initializeTimeoutCallback stopped_checking_handler)) = FAILED
   \<and> emitted stopped_checking_handler (snd (initializeTimeoutCallback stopped_checking_handler))
       = [Logger_log_timeout, Logger_debug_status STOPPED FAILED, Listener_call 7 FAILED]
   \<and> connectStatus (snd (checkVersionCallback 200 (version_response ''3.9.0'') 0
                          stopped_checking_handler)) = RUNNING
   \<and> emitted stopped_checking_handler
        (snd (checkVersionCallback 200 (version_response ''3.9.0'') 0 stopped_checking_handler))
       = [Logger_debug_status STOPPED RUNNING, Listener_call 7 RUNNING]
   \<and> requestQueue
        (run [InitializeTimeout,
              Start ''GET'' ''/connect/info/ping'' Null_data (Some ''session-1'') None]
           stopped_checking_handler)
       = [client_request 1 ''GET'' ''/connect/info/ping'' Null_data None]"
  by code_simp

lemma stopRequests_frame:
  "connectStatus (snd (stopRequests s)) = STOPPED"
  "requestQueue (snd (stopRequests s)) = requestQueue s"
  "idCallbackHash (snd (stopRequests s)) = idCallbackHash s"
  "\<forall>e \<in> set (emitted s (snd (stopRequests s))). \<not> is_listener_call e"
  by (cases "requestImplementation s"; simp add: stopRequests_def Let_def emit_def emitted_def)+

lemma stopRequests_with_adapter:
  "requestImplementation s = Some a \<Longrightarrow>
   fst (stopRequests s) = Returned True_val
   \<and> emitted s (snd (stopRequests s)) = (if has_stop a then [Adapter_stop] else [])"
  by (simp add: stopRequests_def Let_def emit_def emitted_def)

lemma stopRequests_without_adapter:
  "requestImplementation s = None \<Longrightarrow>
   stopRequests s = (Thrown TypeError, s\<lparr>connectStatus := STOPPED\<rparr>)"
  by (simp add: stopRequests_def Let_def)

text \<open>
  Claim C10, evaluated. \<open>stopRequests\<close> sets the status to \<open>STOPPED\<close> by assignment, never
  calls the status listener and leaves the queue and the table as they are (lemma
  \<open>stopRequests_frame\<close>); with a transport adapter set it returns true, after calling the
  adapter's \<open>stop\<close> when that is a function (lemma \<open>stopRequests_with_adapter\<close>). While
  \<open>requestImplementation\<close> is still \<^verbatim>\<open>null\<close> (from the constructor until \<open>init\<close> has chosen an
  adapter, which for the extension transports happens only when the detection answers),
  reading \<^verbatim>\<open>requestImplementation.stop\<close> throws a TypeError after the status was set: the
  call does not return true.
\<close>

theorem stopRequests_without_adapter_throws:
  "requestImplementation detecting_handler = None
   \<and> fst (stopRequests detecting_handler) = Thrown TypeError
   \<and> connectStatus (snd (stopRequests detecting_handler)) = STOPPED
   \<and> emitted detecting_handler (snd (stopRequests detecting_handler)) = []
   \<and> requestImplementation ready_handler = Some http_adapter
   \<and> fst (stopRequests ready_handler) = Returned True_val
   \<and> connectStatus (snd (stopRequests ready_handler)) = STOPPED
   \<and> emitted ready_handler (snd (stopRequests ready_handler)) = [Adapter_stop]"
  by code_simp

end
